theory Spec2Isabelle
  imports Complex_Main "HOL-Library.Multiset" "HOL-Library.Log_Nat"
begin

section \<open>Data model\<close>

text \<open>
  Python text is a sequence of Unicode code points. The symbol pool of
  \<open>generate_password\<close> holds characters beyond Latin-1 (the euro sign is 8364),
  so a character is its code point and a Python \<open>str\<close> a list of them. Dictionary
  keys and validator names, which the code only compares with ASCII literals, are HOL
  strings.
\<close>

type_synonym pychar = nat
type_synonym pystr = "pychar list"

text \<open>The exceptions the modelled functions can raise.\<close>

datatype error = ValueError | TypeError | KeyError | IndexError | NameError
  | ZeroDivisionError | UnicodeEncodeError | OverflowError

text \<open>
  A source of randomness is an endless sequence of raw draws; \<open>randbelow n\<close> takes the
  next one and reduces it below \<open>n\<close>. Every index below \<open>n\<close> can come out, since the
  raw draw is arbitrary. The callers below never ask for \<open>randbelow 0\<close>.
\<close>

type_synonym entropy = "nat \<Rightarrow> nat"

definition randbelow :: "nat \<Rightarrow> entropy \<Rightarrow> nat \<times> entropy" where
  "randbelow n e = (e 0 mod n, \<lambda>i. e (Suc i))"

text \<open>
  Python has two generators in play: \<open>random.SystemRandom()\<close>, which reads the
  operating system's secure source, and the module-level functions \<open>random.shuffle\<close>
  and \<open>random.randint\<close>, which share one global Mersenne Twister whose state each
  call advances.
\<close>

record random_sources =
  system_random :: entropy
  twister :: entropy

text \<open>\<open>seq[randbelow(len(seq))]\<close>, and \<open>IndexError\<close> on an empty sequence.\<close>

definition choice :: "'a list \<Rightarrow> entropy \<Rightarrow> error + ('a \<times> entropy)" where
  "choice seq e =
     (if seq = [] then Inl IndexError
      else (case randbelow (length seq) e of (i, e') \<Rightarrow> Inr (seq ! i, e')))"

text \<open>
  \<open>random.shuffle(x)\<close>:
  \<^verbatim>\<open>
  for i in reversed(range(1, len(x))):
      j = randbelow(i + 1)
      x[i], x[j] = x[j], x[i]
  \<close>
\<close>

fun shuffle_loop :: "nat \<Rightarrow> 'a list \<Rightarrow> entropy \<Rightarrow> 'a list \<times> entropy" where
  "shuffle_loop 0 x e = (x, e)"
| "shuffle_loop (Suc n) x e =
     (case randbelow (Suc n + 1) e of
        (j, e') \<Rightarrow> shuffle_loop n (x[Suc n := x ! j, j := x ! Suc n]) e')"

definition shuffle :: "'a list \<Rightarrow> entropy \<Rightarrow> 'a list \<times> entropy" where
  "shuffle x e = shuffle_loop (length x - 1) x e"

text \<open>\<open>d.get(k, default)\<close> and Python's truth value of \<open>d.get(k)\<close> for integer values.\<close>

definition dict_get :: "('k \<rightharpoonup> 'v) \<Rightarrow> 'k \<Rightarrow> 'v \<Rightarrow> 'v" where
  "dict_get d k dflt = (case d k of None \<Rightarrow> dflt | Some v \<Rightarrow> v)"

fun truthy :: "int option \<Rightarrow> bool" where
  "truthy None = False"
| "truthy (Some v) = (v \<noteq> 0)"

section \<open>Password policy: \<open>password_complexity\<close>\<close>

text \<open>
  One entry of \<open>settings.AUTH_PASSWORD_VALIDATORS\<close>. Django requires \<open>NAME\<close>;
  \<open>OPTIONS\<close> is optional there, and \<open>password_complexity\<close> reads it with
  \<open>validator["OPTIONS"]\<close>, which raises \<open>KeyError\<close> when it is missing.
\<close>

record validator =
  NAME :: string
  OPTIONS :: "(string \<rightharpoonup> int) option"

type_synonym complexity = "string \<rightharpoonup> int"

definition known_validators :: "string \<rightharpoonup> string" where
  "known_validators = map_of
    [(''common.djangoapps.util.password_policy_validators.MinimumLengthValidator'', ''min_length''),
     (''common.djangoapps.util.password_policy_validators.MaximumLengthValidator'', ''max_length''),
     (''common.djangoapps.util.password_policy_validators.AlphabeticValidator'', ''min_alphabetic''),
     (''common.djangoapps.util.password_policy_validators.UppercaseValidator'', ''min_upper''),
     (''common.djangoapps.util.password_policy_validators.LowercaseValidator'', ''min_lower''),
     (''common.djangoapps.util.password_policy_validators.NumericValidator'', ''min_numeric''),
     (''common.djangoapps.util.password_policy_validators.PunctuationValidator'', ''min_punctuation''),
     (''common.djangoapps.util.password_policy_validators.SymbolValidator'', ''min_symbol'')]"

text \<open>The loop over the validators, from the dictionary built so far.\<close>

fun collect_complexity :: "validator list \<Rightarrow> complexity \<Rightarrow> error + complexity" where
  "collect_complexity [] complexity = Inr complexity"
| "collect_complexity (v # vs) complexity =
     (case known_validators (NAME v) of
        None \<Rightarrow> collect_complexity vs complexity
      | Some param_name \<Rightarrow>
          (case OPTIONS v of
             None \<Rightarrow> Inl KeyError
           | Some opts \<Rightarrow>
               collect_complexity vs (complexity(param_name \<mapsto> dict_get opts param_name 0))))"

text \<open>"merge alphabetic with lower and uppercase".\<close>

definition merge_alphabetic :: "complexity \<Rightarrow> complexity" where
  "merge_alphabetic complexity =
     (case complexity ''min_alphabetic'' of
        None \<Rightarrow> complexity
      | Some min_alphabetic \<Rightarrow>
          if min_alphabetic \<noteq> 0
             \<and> (truthy (complexity ''min_lower'') \<or> truthy (complexity ''min_upper''))
          then complexity(''min_alphabetic'' \<mapsto>
                 max 0 (min_alphabetic - dict_get complexity ''min_lower'' 0
                                       - dict_get complexity ''min_upper'' 0))
          else complexity)"

definition password_complexity :: "validator list \<Rightarrow> error + complexity" where
  "password_complexity password_validators =
     (case collect_complexity password_validators Map.empty of
        Inl err \<Rightarrow> Inl err
      | Inr complexity \<Rightarrow> Inr (merge_alphabetic complexity))"

section \<open>Password generation: \<open>generate_password\<close> of \<open>user_authn/utils.py\<close>\<close>

definition ascii_lowercase :: pystr where
  "ascii_lowercase = [97 ..< 123]"

definition ascii_uppercase :: pystr where
  "ascii_uppercase = [65 ..< 91]"

definition ascii_letters :: pystr where
  "ascii_letters = ascii_lowercase @ ascii_uppercase"

definition digits :: pystr where
  "digits = [48 ..< 58]"

text \<open>\<open>string.punctuation\<close>: the 32 ASCII characters that are neither letters, digits nor blank.\<close>

definition punctuation :: pystr where
  "punctuation = [33 ..< 48] @ [58 ..< 65] @ [91 ..< 97] @ [123 ..< 127]"

text \<open>Pound, yen, euro, copyright, registered, trade mark, dagger, section, pilcrow, pi, mu, plus-minus.\<close>

definition non_ascii_characters :: pystr where
  "non_ascii_characters = [163, 165, 8364, 169, 174, 8482, 8224, 167, 182, 960, 956, 177]"

text \<open>The dictionary \<open>password_rules\<close>, in its insertion order, which the loop follows.\<close>

definition password_rules :: "(string \<times> pystr) list" where
  "password_rules =
    [(''min_lower'', ascii_lowercase),
     (''min_upper'', ascii_uppercase),
     (''min_alphabetic'', ascii_letters),
     (''min_numeric'', digits),
     (''min_punctuation'', punctuation),
     (''min_symbol'', non_ascii_characters)]"

text \<open>
  The inner loop \<open>for _ in range(needed)\<close>: choose from the pool, append to the
  password, remove the chosen character from the pool.
\<close>

fun sample :: "nat \<Rightarrow> pystr \<Rightarrow> pystr \<Rightarrow> entropy \<Rightarrow> error + (pystr \<times> pystr \<times> entropy)" where
  "sample 0 elems password e = Inr (password, elems, e)"
| "sample (Suc n) elems password e =
     (case choice elems e of
        Inl err \<Rightarrow> Inl err
      | Inr (next_char, e') \<Rightarrow> sample n (remove1 next_char elems) (password @ [next_char]) e')"

text \<open>
  The outer loop \<open>for rule, elems in password_rules.items()\<close>. A negative \<open>needed\<close>
  gives an empty \<open>range\<close>.
\<close>

fun apply_rules :: "(string \<times> pystr) list \<Rightarrow> complexity \<Rightarrow> pystr \<Rightarrow> entropy
    \<Rightarrow> error + (pystr \<times> entropy)" where
  "apply_rules [] complexity password e = Inr (password, e)"
| "apply_rules ((rule, elems) # rest) complexity password e =
     (case sample (nat (dict_get complexity rule 0)) elems password e of
        Inl err \<Rightarrow> Inl err
      | Inr (password', _, e') \<Rightarrow> apply_rules rest complexity password' e')"

text \<open>\<open>[choice(chars) for _ in range(k)]\<close>.\<close>

fun fill :: "nat \<Rightarrow> pystr \<Rightarrow> entropy \<Rightarrow> error + (pystr \<times> entropy)" where
  "fill 0 chars e = Inr ([], e)"
| "fill (Suc k) chars e =
     (case choice chars e of
        Inl err \<Rightarrow> Inl err
      | Inr (c, e') \<Rightarrow>
          (case fill k chars e' of
             Inl err \<Rightarrow> Inl err
           | Inr (cs, e'') \<Rightarrow> Inr (c # cs, e'')))"

text \<open>"fill the password to reach password_length".\<close>

definition fill_password :: "int \<Rightarrow> pystr \<Rightarrow> pystr \<Rightarrow> entropy \<Rightarrow> error + (pystr \<times> entropy)" where
  "fill_password password_length chars password e =
     (if int (length password) < password_length
      then (case fill (nat (password_length - int (length password))) chars e of
              Inl err \<Rightarrow> Inl err
            | Inr (cs, e') \<Rightarrow> Inr (password @ cs, e'))
      else Inr (password, e))"

text \<open>
  \<open>generate_password(length, chars)\<close>, with \<open>settings.AUTH_PASSWORD_VALIDATORS\<close> and
  the two generators as further arguments. In Python 3 \<open>max(length, None)\<close> raises
  \<open>TypeError\<close>, which is what \<open>complexity.get('min_length')\<close> yields without a
  minimum-length validator. The choices use \<open>random.SystemRandom().choice\<close>, the
  shuffle is \<open>random.shuffle\<close>.
\<close>

definition generate_password :: "validator list \<Rightarrow> int \<Rightarrow> pystr \<Rightarrow> random_sources
    \<Rightarrow> error + (pystr \<times> random_sources)" where
  "generate_password password_validators len chars w =
     (if len < 8 then Inl ValueError
      else case password_complexity password_validators of
        Inl err \<Rightarrow> Inl err
      | Inr complexity \<Rightarrow>
          (case complexity ''min_length'' of
             None \<Rightarrow> Inl TypeError
           | Some min_length \<Rightarrow>
               (case apply_rules password_rules complexity [] (system_random w) of
                  Inl err \<Rightarrow> Inl err
                | Inr (password, e) \<Rightarrow>
                    (case fill_password (max len min_length) chars password e of
                       Inl err \<Rightarrow> Inl err
                     | Inr (password', e') \<Rightarrow>
                         (case shuffle password' (twister w) of
                            (password_list, t') \<Rightarrow>
                              Inr (password_list,
                                   w\<lparr>system_random := e', twister := t'\<rparr>))))))"

section \<open>Password generation: \<open>generate_password\<close> of \<open>user_api/accounts/utils.py\<close>\<close>

text \<open>
  The older generator (Python 2). Its \<open>password_complexity\<close> is imported from
  \<open>util.password_policy_validators\<close>, so the dictionary that call returns is an
  argument here, with \<open>settings.PASSWORD_MIN_LENGTH\<close> and the truth value of
  \<open>settings.FEATURES.get('ENFORCE_PASSWORD_POLICY')\<close>. When the policy is not
  enforced \<open>min_non_ascii\<close> is never assigned, and reading it raises
  \<open>UnboundLocalError\<close>, a \<open>NameError\<close>. Each of its sampling loops is the loop
  \<open>sample\<close>: \<open>del xs[xs.index(c)]\<close> removes the first occurrence, as
  \<open>xs.remove(c)\<close> does.
\<close>

text \<open>The minimums: uppercase, lowercase, digits, punctuation, words, non-ASCII.\<close>

definition account_minimums :: "bool \<Rightarrow> complexity \<Rightarrow> int \<times> int \<times> int \<times> int \<times> int \<times> int option" where
  "account_minimums enforce complexity =
     (if enforce then
        (let min_uppercase = dict_get complexity ''UPPER'' 0;
             min_lowercase = dict_get complexity ''LOWER'' 0;
             min_punctuation = dict_get complexity ''PUNCTUATION'' 0;
             min_words = dict_get complexity ''WORDS'' 1;
             min_non_ascii = dict_get complexity ''NON ASCII'' 0;
             min_numeric = dict_get complexity ''NUMERIC'' 0;
             min_digits = max (dict_get complexity ''DIGITS'' 0) min_numeric;
             min_alphabetic = dict_get complexity ''ALPHABETIC'' 0;
             min_lowercase' = (if min_alphabetic > min_uppercase + min_lowercase
                               then min_alphabetic - min_uppercase else min_lowercase)
         in (min_uppercase, min_lowercase', min_digits, min_punctuation, min_words,
             Some min_non_ascii))
      else (1, 1, 1, 0, 1, None))"

text \<open>
  The loops over digits, lowercase, uppercase, punctuation and non-ASCII characters,
  in the order of the source.
\<close>

definition account_samples :: "int \<times> int \<times> int \<times> int \<times> int \<times> int option \<Rightarrow> entropy
    \<Rightarrow> error + (pystr \<times> entropy)" where
  "account_samples mins e =
     (case mins of (min_uppercase, min_lowercase, min_digits, min_punctuation, min_words, min_non_ascii) \<Rightarrow>
      (case sample (nat min_digits) digits [] e of
         Inl err \<Rightarrow> Inl err
       | Inr (p1, _, e1) \<Rightarrow>
      (case sample (nat min_lowercase) ascii_lowercase p1 e1 of
         Inl err \<Rightarrow> Inl err
       | Inr (p2, _, e2) \<Rightarrow>
      (case sample (nat min_uppercase) ascii_uppercase p2 e2 of
         Inl err \<Rightarrow> Inl err
       | Inr (p3, _, e3) \<Rightarrow>
      (case sample (nat min_punctuation) punctuation p3 e3 of
         Inl err \<Rightarrow> Inl err
       | Inr (p4, _, e4) \<Rightarrow>
      (case min_non_ascii of
         None \<Rightarrow> Inl NameError
       | Some k \<Rightarrow>
      (case sample (nat k) non_ascii_characters p4 e4 of
         Inl err \<Rightarrow> Inl err
       | Inr (p5, _, e5) \<Rightarrow> Inr (p5, e5))))))))"

text \<open>
  The blanks that split the password into words: after the character at index \<open>n\<close>
  when \<open>n % word_size == word_size - 1 and n < length - 1\<close>. A \<open>word_size\<close> of 0
  makes \<open>%\<close> raise on the first character.
\<close>

definition add_spaces :: "int \<Rightarrow> int \<Rightarrow> pystr \<Rightarrow> error + pystr" where
  "add_spaces word_size len password =
     (if word_size = 0 \<and> password \<noteq> [] then Inl ZeroDivisionError
      else Inr (concat (map (\<lambda>(n, l).
             l # (if int n mod word_size = word_size - 1 \<and> int n < len - 1 then [32] else []))
             (enumerate 0 password))))"

definition generate_password_accounts :: "int \<Rightarrow> bool \<Rightarrow> complexity \<Rightarrow> int \<Rightarrow> pystr
    \<Rightarrow> random_sources \<Rightarrow> error + (pystr \<times> random_sources)" where
  "generate_password_accounts PASSWORD_MIN_LENGTH enforce complexity len chars w =
     (if len < 8 then Inl ValueError
      else
       (let password_length = max len PASSWORD_MIN_LENGTH;
            mins = account_minimums enforce complexity
        in case mins of (min_uppercase, min_lowercase, min_digits, min_punctuation, min_words, min_non_ascii) \<Rightarrow>
         (case account_samples mins (system_random w) of
            Inl err \<Rightarrow> Inl err
          | Inr (password, e) \<Rightarrow>
              (let policies = min_uppercase + min_lowercase + min_digits + min_punctuation
               in case fill (nat (password_length - policies)) chars e of
                    Inl err \<Rightarrow> Inl err
                  | Inr (cs, e') \<Rightarrow>
                      (case shuffle (password @ cs) (twister w) of
                         (password_list, t') \<Rightarrow>
                           (let w' = w\<lparr>system_random := e', twister := t'\<rparr>
                            in if min_words > 1
                               then (case add_spaces (password_length div min_words) len password_list of
                                       Inl err \<Rightarrow> Inl err
                                     | Inr spaced \<Rightarrow> Inr (spaced, w'))
                               else Inr (password_list, w')))))))"

section \<open>Observations on a password\<close>

text \<open>
  A character class is the pool the generator draws that class from; the validators
  themselves are not part of these files. \<open>class_count pool password\<close> is the number
  of characters of the password that lie in the pool.
\<close>

definition class_count :: "pystr \<Rightarrow> pystr \<Rightarrow> nat" where
  "class_count pool password = length (filter (\<lambda>c. c \<in> set pool) password)"

section \<open>Breach lookup: \<open>check_pwned_password\<close>\<close>

text \<open>
  What \<open>PwnedPasswordsAPI.range\<close> hands back: \<open>None\<close>, the timeout sentinel
  \<open>HTTP_408_REQUEST_TIMEOUT\<close>, or a dictionary from hash suffixes to counts.
\<close>

datatype pwned_response = NoResponse | Timeout | Entries "string \<rightharpoonup> int"

text \<open>The values of the \<open>properties\<close> dictionary: a status string or an integer.\<close>

datatype pyvalue = PyStr string | PyInt int

text \<open>
  \<open>math.log10(n)\<close> on a Python \<open>int\<close> first turns it into a double.
  \<open>PyLong_AsDouble\<close> keeps 53 significant bits, rounding to nearest with ties to the
  even mantissa, and raises \<open>OverflowError\<close> when the rounded value does not fit below
  \<open>2 ^ 1024\<close>. The double an integer turns into is an integer again, so it is given by
  its value.
\<close>

definition round_to_double :: "int \<Rightarrow> int" where
  "round_to_double n =
     (let bits = bitlen n
      in if bits \<le> 53 then n
         else (let shift = nat (bits - 53);
                   q = n div 2 ^ shift;
                   r = n mod 2 ^ shift;
                   half = 2 ^ (shift - 1)
               in (if half < r \<or> (r = half \<and> odd q) then q + 1 else q) * 2 ^ shift))"

definition PyLong_AsDouble :: "int \<Rightarrow> error + int" where
  "PyLong_AsDouble n =
     (let x = round_to_double n
      in if 2 ^ 1024 \<le> x then Inl OverflowError else Inr x)"

text \<open>
  \<open>math.log10(n)\<close> for an \<open>int\<close> (the helper \<open>loghelper\<close> of CPython): a value that
  is not positive is a \<open>ValueError\<close>; otherwise the C library's \<open>log10\<close> is applied to
  the double \<open>n\<close> was rounded to, and an \<open>n\<close> beyond the range of doubles goes through
  its mantissa and exponent instead. What the C library computes in floating point is not
  fixed by these files: \<open>log10_libm\<close> is its \<open>log10\<close> on a double and
  \<open>log10_frexp\<close> the result of the route for the integers that overflow; both are
  arguments. \<open>math.ceil\<close> of a double is the least integer not below it.
\<close>

definition math_log10 :: "(real \<Rightarrow> real) \<Rightarrow> (int \<Rightarrow> real) \<Rightarrow> int \<Rightarrow> error + real" where
  "math_log10 log10_libm log10_frexp n =
     (if n \<le> 0 then Inl ValueError
      else (case PyLong_AsDouble n of
              Inl err \<Rightarrow> Inr (log10_frexp n)
            | Inr x \<Rightarrow> Inr (log10_libm (real_of_int x))))"

text \<open>
  The shared tail:
  \<open>if pwned_count > 0: properties['frequency'] = math.ceil(math.log10(pwned_count))\<close>.
\<close>

definition add_frequency :: "(real \<Rightarrow> real) \<Rightarrow> (int \<Rightarrow> real) \<Rightarrow> (string \<rightharpoonup> pyvalue) \<Rightarrow> int
    \<Rightarrow> error + (string \<rightharpoonup> pyvalue)" where
  "add_frequency log10_libm log10_frexp properties pwned_count =
     (if pwned_count > 0
      then (case math_log10 log10_libm log10_frexp pwned_count of
              Inl err \<Rightarrow> Inl err
            | Inr x \<Rightarrow> Inr (properties(''frequency'' \<mapsto> PyInt \<lceil>x\<rceil>)))
      else Inr properties)"

text \<open>
  \<open>check_pwned_password(password)\<close>. Two more things it calls lie outside these files
  and are arguments: \<open>sha1_hexdigest\<close> is
  \<open>hashlib.sha1(password.encode('utf-8')).hexdigest().upper()\<close>, which raises
  \<open>UnicodeEncodeError\<close> for text UTF-8 cannot encode, and \<open>api_range\<close> is the lookup
  \<open>PwnedPasswordsAPI.range\<close>.
\<close>

definition check_pwned_password :: "(pystr \<Rightarrow> error + string) \<Rightarrow> (string \<Rightarrow> pwned_response)
    \<Rightarrow> (real \<Rightarrow> real) \<Rightarrow> (int \<Rightarrow> real) \<Rightarrow> pystr \<Rightarrow> error + (string \<rightharpoonup> pyvalue)" where
  "check_pwned_password sha1_hexdigest api_range log10_libm log10_frexp password =
     (case sha1_hexdigest password of
        Inl err \<Rightarrow> Inl err
      | Inr hashed \<Rightarrow>
          (case api_range hashed of
             NoResponse \<Rightarrow> Inr Map.empty
           | Timeout \<Rightarrow>
               add_frequency log10_libm log10_frexp [''vulnerability'' \<mapsto> PyStr ''unknown''] 0
           | Entries pwned_response \<Rightarrow>
               (let pwned_count = dict_get pwned_response (drop 5 hashed) 0
                in add_frequency log10_libm log10_frexp
                     [''vulnerability'' \<mapsto> PyStr (if pwned_count > 0 then ''yes'' else ''no'')]
                     pwned_count)))"

section \<open>Username suggestions: \<open>generate_username_suggestions\<close>\<close>

text \<open>\<open>s.split(sep)\<close> for a one-character separator: never an empty list.\<close>

fun split :: "'a \<Rightarrow> 'a list \<Rightarrow> 'a list list" where
  "split sep [] = [[]]"
| "split sep (c # cs) =
     (if c = sep then [] # split sep cs
      else (case split sep cs of
              [] \<Rightarrow> [[c]]
            | w # ws \<Rightarrow> (c # w) # ws))"

text \<open>\<open>s[:stop]\<close>: a negative \<open>stop\<close> counts from the end, \<open>None\<close> keeps all.\<close>

fun slice_to :: "int option \<Rightarrow> 'a list \<Rightarrow> 'a list" where
  "slice_to None s = s"
| "slice_to (Some stop) s =
     (if 0 \<le> stop then take (nat stop) s else take (nat (int (length s) + stop)) s)"

text \<open>\<open>str(n)\<close> for a non-negative integer: its decimal digits.\<close>

function str_nat :: "nat \<Rightarrow> pystr" where
  "str_nat n = (if n < 10 then [48 + n] else str_nat (n div 10) @ [48 + n mod 10])"
  by pat_completeness auto
termination
  by (relation "measure id") auto

declare str_nat.simps [simp del]

text \<open>\<open>random.randint(a, b)\<close> is \<open>a + randbelow(b - a + 1)\<close>, on the module's generator.\<close>

definition randint :: "nat \<Rightarrow> nat \<Rightarrow> entropy \<Rightarrow> nat \<times> entropy" where
  "randint a b e = (case randbelow (b - a + 1) e of (r, e') \<Rightarrow> (a + r, e'))"

text \<open>
  \<open>"".join(re.findall(r"[\w-]+", name))\<close> keeps exactly the characters that are word
  characters or hyphens. Which characters \<open>\w\<close> matches is decided by Python's Unicode
  tables, so the test is an argument, as is \<open>str.lower\<close>.
\<close>

definition remove_special_characters_from_name :: "(pychar \<Rightarrow> bool) \<Rightarrow> pystr \<Rightarrow> pystr" where
  "remove_special_characters_from_name is_word name = filter (\<lambda>c. is_word c \<or> c = 45) name"

definition int_ranges :: "(nat \<times> nat) list" where
  "int_ranges = [(0, 9), (10, 99), (100, 999), (1000, 99999)]"

text \<open>
  The inner loop \<open>for _ in range(10)\<close> over one range: the first random suggestion that
  \<open>username_exists_or_retired\<close> does not know, if one turns up in the tries left.
\<close>

fun try_range :: "nat \<Rightarrow> (pystr \<Rightarrow> bool) \<Rightarrow> pystr \<Rightarrow> nat \<times> nat \<Rightarrow> entropy
    \<Rightarrow> pystr option \<times> entropy" where
  "try_range 0 username_exists_or_retired short_username int_range e = (None, e)"
| "try_range (Suc k) username_exists_or_retired short_username int_range e =
     (case randint (fst int_range) (snd int_range) e of
        (random_int, e') \<Rightarrow>
          (let suggestion = short_username @ [95] @ str_nat random_int
           in if \<not> username_exists_or_retired suggestion then (Some suggestion, e')
              else try_range k username_exists_or_retired short_username int_range e'))"

text \<open>The loop over \<open>int_ranges\<close>, which stops once there are three suggestions.\<close>

fun ranges_loop :: "(nat \<times> nat) list \<Rightarrow> (pystr \<Rightarrow> bool) \<Rightarrow> pystr \<Rightarrow> pystr list \<Rightarrow> entropy
    \<Rightarrow> pystr list \<times> entropy" where
  "ranges_loop [] username_exists_or_retired short_username username_suggestions e =
     (username_suggestions, e)"
| "ranges_loop (int_range # rest) username_exists_or_retired short_username username_suggestions e =
     (case try_range 10 username_exists_or_retired short_username int_range e of
        (found, e') \<Rightarrow>
          (let username_suggestions' =
                 (case found of
                    None \<Rightarrow> username_suggestions
                  | Some suggestion \<Rightarrow> username_suggestions @ [suggestion])
           in if length username_suggestions' = 3 then (username_suggestions', e')
              else ranges_loop rest username_exists_or_retired short_username
                     username_suggestions' e'))"

text \<open>
  \<open>generate_username_suggestions(name)\<close>. \<open>USERNAME_MAX_LENGTH\<close> comes from
  \<open>user_api.accounts\<close> and is an argument; the code allows for it to be \<open>None\<close>.
  \<open>username_exists_or_retired\<close> is the lookup in the user store. The random integers
  come from the module-level generator.
\<close>

definition generate_username_suggestions :: "int option \<Rightarrow> (pystr \<Rightarrow> pystr) \<Rightarrow> (pychar \<Rightarrow> bool)
    \<Rightarrow> (pystr \<Rightarrow> bool) \<Rightarrow> pystr \<Rightarrow> random_sources \<Rightarrow> pystr list \<times> random_sources" where
  "generate_username_suggestions USERNAME_MAX_LENGTH lower is_word username_exists_or_retired name w =
     (let max_length = USERNAME_MAX_LENGTH;
          names = split 32 name
      in if names = [] then ([], w)
         else
          (let first_name = remove_special_characters_from_name is_word (lower (hd names));
               last_name = remove_special_characters_from_name is_word (lower (last names));
               username_suggestions =
                 (if first_name \<noteq> last_name \<and> first_name \<noteq> []
                  then
                   (let suggestion = slice_to max_length (first_name @ last_name);
                        suggestions1 = (if \<not> username_exists_or_retired suggestion
                                        then [suggestion] else []);
                        suggestion' = slice_to max_length ([hd first_name] @ [45] @ last_name)
                    in if \<not> username_exists_or_retired suggestion'
                       then suggestions1 @ [suggestion'] else suggestions1)
                  else [])
           in if length first_name \<ge> 2
              then
               (let short_username =
                      (case max_length of
                         None \<Rightarrow> first_name
                       | Some m \<Rightarrow> slice_to (Some (m - 6)) first_name);
                    short_username' = filter (\<lambda>c. c \<noteq> 45) (filter (\<lambda>c. c \<noteq> 95) short_username)
                in case ranges_loop int_ranges username_exists_or_retired short_username'
                          username_suggestions (twister w) of
                     (username_suggestions', t') \<Rightarrow> (username_suggestions', w\<lparr>twister := t'\<rparr>))
              else (username_suggestions, w)))"

section \<open>Characters required by a policy, and example inputs\<close>

text \<open>
  The number of characters the six sampling loops append: \<open>range(needed)\<close> runs
  \<open>needed\<close> times, and not at all for a negative \<open>needed\<close>. For a policy of
  non-negative minimums this is the sum of its per-class minimums.
\<close>

definition policy_chars :: "complexity \<Rightarrow> nat" where
  "policy_chars complexity = (\<Sum>(rule, elems) \<leftarrow> password_rules. nat (dict_get complexity rule 0))"

text \<open>Settings and random sources used to run the model on concrete inputs.\<close>

definition example_validators :: "validator list" where
  "example_validators =
    [\<lparr>NAME = ''django.contrib.auth.password_validation.UserAttributeSimilarityValidator'',
      OPTIONS = None\<rparr>,
     \<lparr>NAME = ''common.djangoapps.util.password_policy_validators.MinimumLengthValidator'',
      OPTIONS = Some [''min_length'' \<mapsto> 8]\<rparr>,
     \<lparr>NAME = ''common.djangoapps.util.password_policy_validators.AlphabeticValidator'',
      OPTIONS = Some [''min_alphabetic'' \<mapsto> 5]\<rparr>,
     \<lparr>NAME = ''common.djangoapps.util.password_policy_validators.LowercaseValidator'',
      OPTIONS = Some [''min_lower'' \<mapsto> 2]\<rparr>,
     \<lparr>NAME = ''common.djangoapps.util.password_policy_validators.UppercaseValidator'',
      OPTIONS = Some [''min_upper'' \<mapsto> 1]\<rparr>,
     \<lparr>NAME = ''common.djangoapps.util.password_policy_validators.NumericValidator'',
      OPTIONS = Some [''min_numeric'' \<mapsto> 1]\<rparr>,
     \<lparr>NAME = ''common.djangoapps.util.password_policy_validators.PunctuationValidator'',
      OPTIONS = Some [''min_punctuation'' \<mapsto> 1]\<rparr>,
     \<lparr>NAME = ''common.djangoapps.util.password_policy_validators.SymbolValidator'',
      OPTIONS = Some [''min_symbol'' \<mapsto> 1]\<rparr>]"

definition example_sources :: random_sources where
  "example_sources = \<lparr>system_random = (\<lambda>i. 7 * i + 3), twister = (\<lambda>i. 5 * i + 1)\<rparr>"

definition numeric_validators :: "validator list" where
  "numeric_validators =
    [\<lparr>NAME = ''common.djangoapps.util.password_policy_validators.MinimumLengthValidator'',
      OPTIONS = Some [''min_length'' \<mapsto> 8]\<rparr>,
     \<lparr>NAME = ''common.djangoapps.util.password_policy_validators.NumericValidator'',
      OPTIONS = Some [''min_numeric'' \<mapsto> 10]\<rparr>]"

definition zero_sources :: random_sources where
  "zero_sources = \<lparr>system_random = (\<lambda>i. 0), twister = (\<lambda>i. 0)\<rparr>"

definition counting_sources :: random_sources where
  "counting_sources = \<lparr>system_random = (\<lambda>i. 0), twister = (\<lambda>i. i)\<rparr>"

definition marked_sources :: random_sources where
  "marked_sources = \<lparr>system_random = (\<lambda>i. 0), twister = (\<lambda>i. if i < 9 then 1 else 2)\<rparr>"

definition merging_validators :: "validator list" where
  "merging_validators =
    [\<lparr>NAME = ''common.djangoapps.util.password_policy_validators.MinimumLengthValidator'',
      OPTIONS = Some [''min_length'' \<mapsto> 8]\<rparr>,
     \<lparr>NAME = ''common.djangoapps.util.password_policy_validators.AlphabeticValidator'',
      OPTIONS = Some [''min_alphabetic'' \<mapsto> 5]\<rparr>,
     \<lparr>NAME = ''common.djangoapps.util.password_policy_validators.LowercaseValidator'',
      OPTIONS = Some [''min_lower'' \<mapsto> 2]\<rparr>,
     \<lparr>NAME = ''common.djangoapps.util.password_policy_validators.UppercaseValidator'',
      OPTIONS = Some [''min_upper'' \<mapsto> 2]\<rparr>]"


text \<open>
  Stand-ins for the library functions when the model is run: \<open>str.lower\<close> and \<open>\w\<close>
  restricted to ASCII, a user store that knows two names, and the SHA-1 digest of the
  password \<open>password\<close> with a lookup response that holds one count for its suffix.
\<close>

definition ascii_lower :: "pystr \<Rightarrow> pystr" where
  "ascii_lower s = map (\<lambda>c. if 65 \<le> c \<and> c \<le> 90 then c + 32 else c) s"

definition ascii_word :: "pychar \<Rightarrow> bool" where
  "ascii_word c = ((48 \<le> c \<and> c \<le> 57) \<or> (65 \<le> c \<and> c \<le> 90) \<or> (97 \<le> c \<and> c \<le> 122) \<or> c = 95)"

definition taken :: "pystr \<Rightarrow> bool" where
  "taken u = (u \<in> set [[106, 111, 104, 110, 115, 109, 105, 116, 104], [106, 111, 104, 110, 95, 49]])"

definition john_smith :: pystr where
  "john_smith = [74, 111, 104, 110, 32, 83, 109, 105, 116, 104]"

definition example_digest :: "pystr \<Rightarrow> error + string" where
  "example_digest password =
     (if password = [112, 97, 115, 115, 119, 111, 114, 100]
      then Inr ''5BAA61E4C9B93F3F0682250B6CF8331B7EE68FD8''
      else Inl UnicodeEncodeError)"

definition single_entry :: "int \<Rightarrow> (string \<rightharpoonup> int)" where
  "single_entry pwned_count = [''1E4C9B93F3F0682250B6CF8331B7EE68FD8'' \<mapsto> pwned_count]"

text \<open>
  What the C library's \<open>log10\<close> returns at the two doubles the runs below hand it:
  17 at \<open>1e17\<close>, and \<open>6.571763668212783\<close> (to the digits Python prints) at
  \<open>3730471.0\<close>. Its value elsewhere plays no part in them.
\<close>

definition log10_table :: "real \<Rightarrow> real" where
  "log10_table x =
     (if x = 3730471 then 6.571763668212783 else if x = 10 ^ 17 then 17 else 0)"

section \<open>The sampling loops, the fill and the shuffle\<close>

lemma choice_Inr: "choice seq e = Inr (c, e') \<Longrightarrow> c \<in> set seq"
  by (auto simp: choice_def randbelow_def split: if_splits)



lemma sample_Inr:
  "sample n elems password e = Inr (password', elems', e') \<Longrightarrow>
     \<exists>cs. password' = password @ cs \<and> length cs = n \<and> mset cs + mset elems' = mset elems"
proof (induction n arbitrary: elems password e)
  case 0
  then show ?case by simp
next
  case (Suc n)
  from Suc.prems obtain c e1 where c: "choice elems e = Inr (c, e1)"
    and rest: "sample n (remove1 c elems) (password @ [c]) e1 = Inr (password', elems', e')"
    by (auto split: sum.splits)
  from Suc.IH [OF rest] obtain cs where cs: "password' = (password @ [c]) @ cs" "length cs = n"
    "mset cs + mset elems' = mset (remove1 c elems)" by blast
  have "c \<in> set elems" using c by (rule choice_Inr)
  then have "mset (c # cs) + mset elems' = mset elems" using cs(3) by simp
  with cs(1,2) show ?case by (intro exI [of _ "c # cs"]) simp
qed



lemma fill_Inr: "fill k chars e = Inr (cs, e') \<Longrightarrow> length cs = k \<and> set cs \<subseteq> set chars"
proof (induction k arbitrary: cs e)
  case 0
  then show ?case by simp
next
  case (Suc k)
  then show ?case by (fastforce split: sum.splits dest: choice_Inr)
qed


lemma shuffle_loop_mset:
  "n < length x \<Longrightarrow> mset (fst (shuffle_loop n x e)) = mset x"
proof (induction n arbitrary: x e)
  case 0
  then show ?case by simp
next
  case (Suc n)
  let ?j = "e 0 mod (Suc n + 1)"
  have "?j < Suc n + 1" by simp
  then have j: "?j < length x" using Suc.prems by linarith
  let ?x = "x[Suc n := x ! ?j, ?j := x ! Suc n]"
  have "mset ?x = mset x" using Suc.prems j by (simp add: mset_swap)
  moreover have "n < length ?x" using Suc.prems by simp
  ultimately show ?case using Suc.IH [of ?x] by (simp add: randbelow_def)
qed

lemma shuffle_mset: "mset (fst (shuffle x e)) = mset x"
  by (cases x) (simp_all add: shuffle_def shuffle_loop_mset)

lemma shuffle_length: "length (fst (shuffle x e)) = length x"
  using shuffle_mset [of x e] by (metis size_mset)

lemma class_count_append:
  "class_count pool (xs @ ys) = class_count pool xs + class_count pool ys"
  by (simp add: class_count_def)

lemma class_count_mset:
  "mset xs = mset ys \<Longrightarrow> class_count pool xs = class_count pool ys"
  unfolding class_count_def by (metis mset_filter size_mset)

lemma class_count_subset:
  "set cs \<subseteq> set pool \<Longrightarrow> class_count pool cs = length cs"
  unfolding class_count_def by (simp add: subset_iff)

lemma sample_contribution:
  assumes "sample n elems password e = Inr (password', elems', e')"
  shows "\<exists>cs. password' = password @ cs \<and> length cs = n \<and> set cs \<subseteq> set elems
           \<and> (distinct elems \<longrightarrow> distinct cs)"
proof -
  from sample_Inr [OF assms] obtain cs where cs: "password' = password @ cs" "length cs = n"
    "mset cs + mset elems' = mset elems" by blast
  have eq: "mset (cs @ elems') = mset elems" using cs(3) by simp
  then have "set (cs @ elems') = set elems" by (rule mset_eq_setD)
  then have sub: "set cs \<subseteq> set elems" by auto
  have "distinct cs" if "distinct elems"
  proof -
    have "distinct (cs @ elems')" using eq that by (metis mset_eq_imp_distinct_iff)
    then show ?thesis by simp
  qed
  with cs(1,2) sub show ?thesis by blast
qed

text \<open>What the six loops contribute: one block per rule, in order.\<close>

lemma apply_rules_Inr:
  "apply_rules rules complexity password e = Inr (password', e') \<Longrightarrow>
     \<exists>css. password' = password @ concat css
       \<and> list_all2 (\<lambda>(rule, elems) cs. length cs = nat (dict_get complexity rule 0)
             \<and> set cs \<subseteq> set elems \<and> (distinct elems \<longrightarrow> distinct cs)) rules css"
proof (induction rules arbitrary: password e)
  case Nil
  then show ?case by simp
next
  case (Cons r rules)
  obtain rule elems where r: "r = (rule, elems)" by (cases r)
  from Cons.prems r obtain p1 el1 e1 where
    s: "sample (nat (dict_get complexity rule 0)) elems password e = Inr (p1, el1, e1)"
    and rest: "apply_rules rules complexity p1 e1 = Inr (password', e')"
    by (auto split: sum.splits)
  from sample_contribution [OF s] obtain cs where cs: "p1 = password @ cs"
    "length cs = nat (dict_get complexity rule 0)"
    "set cs \<subseteq> set elems" "distinct elems \<longrightarrow> distinct cs"
    by blast
  from Cons.IH [OF rest] obtain css where css: "password' = p1 @ concat css"
    "list_all2 (\<lambda>(rule, elems) cs. length cs = nat (dict_get complexity rule 0)
             \<and> set cs \<subseteq> set elems \<and> (distinct elems \<longrightarrow> distinct cs)) rules css"
    by blast
  show ?case
    by (rule exI [of _ "cs # css"]) (use cs css r in simp)
qed



lemma apply_rules_length:
  "apply_rules rules complexity password e = Inr (password', e') \<Longrightarrow>
     length password' = length password + (\<Sum>(rule, elems) \<leftarrow> rules. nat (dict_get complexity rule 0))"
proof (induction rules arbitrary: password e)
  case Nil
  then show ?case by simp
next
  case (Cons r rules)
  obtain rule elems where r: "r = (rule, elems)" by (cases r)
  from Cons.prems r obtain p1 el1 e1 where
    s: "sample (nat (dict_get complexity rule 0)) elems password e = Inr (p1, el1, e1)"
    and rest: "apply_rules rules complexity p1 e1 = Inr (password', e')"
    by (auto split: sum.splits)
  from sample_Inr [OF s] have "length p1 = length password + nat (dict_get complexity rule 0)"
    by auto
  with Cons.IH [OF rest] r show ?case by simp
qed

lemma list_all2_six:
  "list_all2 P [a, b, c, d, e, f] ys \<Longrightarrow>
     \<exists>y1 y2 y3 y4 y5 y6. ys = [y1, y2, y3, y4, y5, y6]
       \<and> P a y1 \<and> P b y2 \<and> P c y3 \<and> P d y4 \<and> P e y5 \<and> P f y6"
  by (auto simp: list_all2_Cons1)

lemma apply_password_rules:
  assumes "apply_rules password_rules complexity [] e = Inr (p, e')"
  shows "\<exists>lo up al nu pu sy. p = lo @ up @ al @ nu @ pu @ sy
    \<and> length lo = nat (dict_get complexity ''min_lower'' 0) \<and> set lo \<subseteq> set ascii_lowercase
    \<and> length up = nat (dict_get complexity ''min_upper'' 0) \<and> set up \<subseteq> set ascii_uppercase
    \<and> length al = nat (dict_get complexity ''min_alphabetic'' 0) \<and> set al \<subseteq> set ascii_letters
    \<and> length nu = nat (dict_get complexity ''min_numeric'' 0) \<and> set nu \<subseteq> set digits
    \<and> length pu = nat (dict_get complexity ''min_punctuation'' 0) \<and> set pu \<subseteq> set punctuation
    \<and> length sy = nat (dict_get complexity ''min_symbol'' 0) \<and> set sy \<subseteq> set non_ascii_characters"
proof -
  let ?P = "\<lambda>(rule, elems) cs. length cs = nat (dict_get complexity rule 0)
             \<and> set cs \<subseteq> set elems \<and> (distinct elems \<longrightarrow> distinct cs)"
  from apply_rules_Inr [OF assms] obtain css where p: "p = [] @ concat css"
    and all: "list_all2 ?P password_rules css"
    by (elim exE conjE)
  from list_all2_six [OF all [unfolded password_rules_def]]
  obtain lo up al nu pu sy where css: "css = [lo, up, al, nu, pu, sy]"
    and P: "?P (''min_lower'', ascii_lowercase) lo" "?P (''min_upper'', ascii_uppercase) up"
      "?P (''min_alphabetic'', ascii_letters) al" "?P (''min_numeric'', digits) nu"
      "?P (''min_punctuation'', punctuation) pu" "?P (''min_symbol'', non_ascii_characters) sy"
    by (elim exE conjE)
  note Q = P [unfolded prod.case]
  have p': "p = lo @ up @ al @ nu @ pu @ sy" using p css by simp
  show ?thesis
    by (rule exI [of _ lo], rule exI [of _ up], rule exI [of _ al], rule exI [of _ nu],
        rule exI [of _ pu], rule exI [of _ sy], (intro conjI; (rule p' | use Q in blast)))
qed

lemma fill_password_Inr:
  assumes "fill_password password_length chars password e = Inr (password', e')"
  shows "\<exists>cs. password' = password @ cs \<and> set cs \<subseteq> set chars
           \<and> int (length password') = max password_length (int (length password))"
proof (cases "int (length password) < password_length")
  case True
  with assms obtain cs where f: "fill (nat (password_length - int (length password))) chars e = Inr (cs, e')"
    and p: "password' = password @ cs"
    by (auto simp: fill_password_def split: sum.splits)
  from fill_Inr [OF f] True p show ?thesis by auto
next
  case False
  with assms show ?thesis by (auto simp: fill_password_def)
qed


text \<open>The stages of a successful run.\<close>

lemma generate_password_Inr:
  assumes "generate_password password_validators len chars w = Inr (password, w')"
  shows "\<exists>complexity min_length p e p' e'.
           8 \<le> len
         \<and> password_complexity password_validators = Inr complexity
         \<and> complexity ''min_length'' = Some min_length
         \<and> apply_rules password_rules complexity [] (system_random w) = Inr (p, e)
         \<and> fill_password (max len min_length) chars p e = Inr (p', e')
         \<and> password = fst (shuffle p' (twister w))"
  using assms unfolding generate_password_def
  by (auto split: if_splits sum.splits option.splits prod.splits)




lemma letters_pools:
  "set ascii_lowercase \<subseteq> set ascii_letters" "set ascii_uppercase \<subseteq> set ascii_letters"
  by (simp_all add: ascii_letters_def)

lemma merge_alphabetic_other:
  "rule \<noteq> ''min_alphabetic'' \<Longrightarrow> merge_alphabetic complexity rule = complexity rule"
  by (simp add: merge_alphabetic_def split: option.splits)

lemma merge_alphabetic_covers:
  "dict_get complexity ''min_alphabetic'' 0
     \<le> int (nat (dict_get (merge_alphabetic complexity) ''min_lower'' 0))
       + int (nat (dict_get (merge_alphabetic complexity) ''min_upper'' 0))
       + int (nat (dict_get (merge_alphabetic complexity) ''min_alphabetic'' 0))"
  by (auto simp: merge_alphabetic_def dict_get_def split: option.splits)

lemma policy_chars_eq:
  "policy_chars complexity =
     nat (dict_get complexity ''min_lower'' 0) + nat (dict_get complexity ''min_upper'' 0)
   + nat (dict_get complexity ''min_alphabetic'' 0) + nat (dict_get complexity ''min_numeric'' 0)
   + nat (dict_get complexity ''min_punctuation'' 0) + nat (dict_get complexity ''min_symbol'' 0)"
  by (simp add: policy_chars_def password_rules_def)

text \<open>The shape of every returned password: the six blocks and the fill, permuted.\<close>

lemma generate_password_shape:
  assumes "generate_password password_validators len chars w = Inr (password, w')"
  shows "\<exists>complexity min_length lo up al nu pu sy cs.
      8 \<le> len
    \<and> password_complexity password_validators = Inr complexity
    \<and> complexity ''min_length'' = Some min_length
    \<and> mset password = mset (lo @ up @ al @ nu @ pu @ sy @ cs)
    \<and> length lo = nat (dict_get complexity ''min_lower'' 0) \<and> set lo \<subseteq> set ascii_lowercase
    \<and> length up = nat (dict_get complexity ''min_upper'' 0) \<and> set up \<subseteq> set ascii_uppercase
    \<and> length al = nat (dict_get complexity ''min_alphabetic'' 0) \<and> set al \<subseteq> set ascii_letters
    \<and> length nu = nat (dict_get complexity ''min_numeric'' 0) \<and> set nu \<subseteq> set digits
    \<and> length pu = nat (dict_get complexity ''min_punctuation'' 0) \<and> set pu \<subseteq> set punctuation
    \<and> length sy = nat (dict_get complexity ''min_symbol'' 0) \<and> set sy \<subseteq> set non_ascii_characters
    \<and> set cs \<subseteq> set chars
    \<and> int (length password) = max (max len min_length) (int (policy_chars complexity))"
proof -
  from generate_password_Inr [OF assms] obtain complexity min_length p e p' e' where
    len: "8 \<le> len" and c: "password_complexity password_validators = Inr complexity"
    and ml: "complexity ''min_length'' = Some min_length"
    and a: "apply_rules password_rules complexity [] (system_random w) = Inr (p, e)"
    and f: "fill_password (max len min_length) chars p e = Inr (p', e')"
    and s: "password = fst (shuffle p' (twister w))"
    by (elim exE conjE)
  from apply_password_rules [OF a] obtain lo up al nu pu sy where
    p: "p = lo @ up @ al @ nu @ pu @ sy"
    and blocks:
      "length lo = nat (dict_get complexity ''min_lower'' 0)" "set lo \<subseteq> set ascii_lowercase"
      "length up = nat (dict_get complexity ''min_upper'' 0)" "set up \<subseteq> set ascii_uppercase"
      "length al = nat (dict_get complexity ''min_alphabetic'' 0)" "set al \<subseteq> set ascii_letters"
      "length nu = nat (dict_get complexity ''min_numeric'' 0)" "set nu \<subseteq> set digits"
      "length pu = nat (dict_get complexity ''min_punctuation'' 0)" "set pu \<subseteq> set punctuation"
      "length sy = nat (dict_get complexity ''min_symbol'' 0)" "set sy \<subseteq> set non_ascii_characters"
    by (elim exE conjE)
  from fill_password_Inr [OF f] obtain cs where p': "p' = p @ cs" and cs: "set cs \<subseteq> set chars"
    and l: "int (length p') = max (max len min_length) (int (length p))"
    by (elim exE conjE)
  have m: "mset password = mset (lo @ up @ al @ nu @ pu @ sy @ cs)"
    unfolding s shuffle_mset p' p by simp
  have "length p = policy_chars complexity"
    using apply_rules_length [OF a] by (simp add: policy_chars_def)
  moreover have "length password = length p'" unfolding s by (rule shuffle_length)
  ultimately have n: "int (length password) = max (max len min_length) (int (policy_chars complexity))"
    using l by simp
  show ?thesis
    by (rule exI [of _ complexity], rule exI [of _ min_length], rule exI [of _ lo],
        rule exI [of _ up], rule exI [of _ al], rule exI [of _ nu], rule exI [of _ pu],
        rule exI [of _ sy], rule exI [of _ cs], (intro conjI; fact))
qed

lemma class_count_block:
  assumes "mset password = mset (xs @ blk @ ys)" and "set blk \<subseteq> set pool"
  shows "length blk \<le> class_count pool password"
proof -
  have "class_count pool password = class_count pool (xs @ blk @ ys)"
    using assms(1) by (rule class_count_mset)
  then show ?thesis using class_count_subset [OF assms(2)] by (simp add: class_count_append)
qed

section \<open>Runs on concrete inputs\<close>

lemma example_run:
  "map_sum id fst (generate_password example_validators 10 [97, 98] example_sources)
     = Inr [98, 71, 100, 56, 97, 174, 82, 121, 46, 108]"
  by code_simp

lemma example_policy:
  "collect_complexity example_validators Map.empty =
     Inr [''min_length'' \<mapsto> 8, ''min_alphabetic'' \<mapsto> 5, ''min_lower'' \<mapsto> 2,
          ''min_upper'' \<mapsto> 1, ''min_numeric'' \<mapsto> 1, ''min_punctuation'' \<mapsto> 1,
          ''min_symbol'' \<mapsto> 1]"
  by (simp add: example_validators_def known_validators_def dict_get_def)

lemma Inr_fstE:
  assumes "map_sum id fst r = Inr x"
  obtains y where "r = Inr (x, y)"
  using assms by (cases r) auto

lemma numeric_run:
  "map_sum id fst (generate_password numeric_validators 8 [97] zero_sources)
     = Inr [49, 50, 51, 52, 53, 54, 55, 56, 57, 48]"
  by code_simp

lemma numeric_policy:
  "password_complexity numeric_validators = Inr [''min_length'' \<mapsto> 8, ''min_numeric'' \<mapsto> 10]"
  by (simp add: numeric_validators_def password_complexity_def known_validators_def
      dict_get_def merge_alphabetic_def)

lemma merging_run:
  "map_sum id fst (generate_password merging_validators 8 [97] zero_sources)
     = Inr [98, 65, 66, 97, 97, 97, 97, 97]"
  by code_simp

lemma merging_policy:
  "collect_complexity merging_validators Map.empty
     = Inr [''min_length'' \<mapsto> 8, ''min_alphabetic'' \<mapsto> 5, ''min_lower'' \<mapsto> 2,
            ''min_upper'' \<mapsto> 2]"
  by (simp add: merging_validators_def known_validators_def dict_get_def)

lemma merging_total:
  "policy_chars [''min_length'' \<mapsto> 8, ''min_alphabetic'' \<mapsto> 5, ''min_lower'' \<mapsto> 2,
                 ''min_upper'' \<mapsto> 2] = 9"
  by (simp add: policy_chars_eq dict_get_def)




section \<open>The loops of the username suggestions\<close>

lemma try_range_fresh:
  "try_range k username_exists_or_retired short_username int_range e = (Some suggestion, e')
     \<Longrightarrow> \<not> username_exists_or_retired suggestion"
proof (induction k arbitrary: e)
  case 0
  then show ?case by simp
next
  case (Suc k)
  then show ?case
    by (auto simp: Let_def split: prod.splits if_splits)
qed

lemma ranges_loop_fresh:
  "\<forall>u \<in> set username_suggestions. \<not> username_exists_or_retired u \<Longrightarrow>
   \<forall>u \<in> set (fst (ranges_loop ranges username_exists_or_retired short_username
                       username_suggestions e)). \<not> username_exists_or_retired u"
proof (induction ranges arbitrary: username_suggestions e)
  case Nil
  then show ?case by simp
next
  case (Cons int_range rest)
  obtain found e' where t: "try_range 10 username_exists_or_retired short_username int_range e
      = (found, e')"
    by (cases "try_range 10 username_exists_or_retired short_username int_range e")
  let ?s = "case found of None \<Rightarrow> username_suggestions
            | Some suggestion \<Rightarrow> username_suggestions @ [suggestion]"
  have fresh: "\<forall>u \<in> set ?s. \<not> username_exists_or_retired u"
  proof (cases found)
    case None
    then show ?thesis using Cons.prems by simp
  next
    case (Some suggestion)
    then have "\<not> username_exists_or_retired suggestion" using t try_range_fresh by blast
    then show ?thesis using Cons.prems Some by simp
  qed
  show ?case
  proof (cases "length ?s = 3")
    case True
    then show ?thesis using fresh t by (simp add: Let_def)
  next
    case False
    then show ?thesis using Cons.IH [OF fresh, of e'] t by (simp add: Let_def)
  qed
qed

lemma str_nat_values: "str_nat 0 = [48]" "str_nat 11 = [49, 49]"
  by code_simp+

lemma try_range_unfold:
  "try_range k ex short r e =
     (if k = 0 then (None, e)
      else (case randint (fst r) (snd r) e of
        (random_int, e') \<Rightarrow>
          (let suggestion = short @ [95] @ str_nat random_int
           in if \<not> ex suggestion then (Some suggestion, e')
              else try_range (k - 1) ex short r e')))"
  by (cases k) (auto simp: Let_def split: prod.splits)

lemma john_smith_run:
  "fst (generate_username_suggestions (Some 30) ascii_lower ascii_word taken john_smith
          counting_sources)
     = [[106, 45, 115, 109, 105, 116, 104], [106, 111, 104, 110, 95, 48],
        [106, 111, 104, 110, 95, 49, 49]]"
  by (simp add: generate_username_suggestions_def john_smith_def counting_sources_def
      remove_special_characters_from_name_def ascii_lower_def ascii_word_def int_ranges_def
      try_range_unfold randint_def randbelow_def taken_def Let_def str_nat_values)

section \<open>Runs of the breach lookup and of the shuffle\<close>

lemma password_digest:
  "example_digest [112, 97, 115, 115, 119, 111, 114, 100]
     = Inr ''5BAA61E4C9B93F3F0682250B6CF8331B7EE68FD8''"
  by (simp add: example_digest_def)

lemma math_log10_positive:
  "0 < n \<Longrightarrow> math_log10 log10_libm log10_frexp n
     = Inr (case PyLong_AsDouble n of Inl err \<Rightarrow> log10_frexp n
            | Inr x \<Rightarrow> log10_libm (real_of_int x))"
  by (simp add: math_log10_def split: sum.splits)

lemma add_frequency_positive:
  "0 < pwned_count \<Longrightarrow> \<exists>x. math_log10 log10_libm log10_frexp pwned_count = Inr x
     \<and> add_frequency log10_libm log10_frexp properties pwned_count
         = Inr (properties(''frequency'' \<mapsto> PyInt \<lceil>x\<rceil>))"
  by (simp add: add_frequency_def math_log10_positive)

lemma add_frequency_none:
  "pwned_count \<le> 0 \<Longrightarrow> add_frequency log10_libm log10_frexp properties pwned_count
     = Inr properties"
  by (simp add: add_frequency_def)










lemma marked_run:
  "map_sum id fst (generate_password numeric_validators 8 [97] marked_sources)
     = Inr [48, 50, 51, 52, 53, 54, 55, 56, 57, 49]"
  by code_simp

lemma marked_state:
  "map_sum id (\<lambda>r. twister (snd r) 0) (generate_password numeric_validators 8 [97] marked_sources)
     = Inr 2"
  by code_simp

section \<open>The generated password meets the policy\<close>

text \<open>
  C1: whenever \<open>generate_password\<close> returns a password (which needs a requested length
  of at least 8), the password holds at least the policy's minimum number of characters of
  each class: lowercase, uppercase, alphabetic, digit, punctuation and symbol. The counts
  are taken on the returned string, so characters of the pool fill count too. The policy
  is the dictionary collected from the validators; the bound on alphabetic characters
  holds for the configured minimum and for the one \<open>password_complexity\<close> leaves after
  merging it with the lowercase and uppercase minimums (the other rules are not changed by
  the merge).
\<close>

theorem generate_password_meets_policy:
  assumes "generate_password password_validators len chars w = Inr (password, w')"
    and "collect_complexity password_validators Map.empty = Inr policy"
  shows "dict_get policy ''min_lower'' 0 \<le> int (class_count ascii_lowercase password)
       \<and> dict_get policy ''min_upper'' 0 \<le> int (class_count ascii_uppercase password)
       \<and> dict_get policy ''min_alphabetic'' 0 \<le> int (class_count ascii_letters password)
       \<and> dict_get (merge_alphabetic policy) ''min_alphabetic'' 0
            \<le> int (class_count ascii_letters password)
       \<and> dict_get policy ''min_numeric'' 0 \<le> int (class_count digits password)
       \<and> dict_get policy ''min_punctuation'' 0 \<le> int (class_count punctuation password)
       \<and> dict_get policy ''min_symbol'' 0 \<le> int (class_count non_ascii_characters password)"
proof -
  from generate_password_shape [OF assms(1)] obtain complexity min_length lo up al nu pu sy cs where
    c: "password_complexity password_validators = Inr complexity"
    and m: "mset password = mset (lo @ up @ al @ nu @ pu @ sy @ cs)"
    and blocks:
      "length lo = nat (dict_get complexity ''min_lower'' 0)" "set lo \<subseteq> set ascii_lowercase"
      "length up = nat (dict_get complexity ''min_upper'' 0)" "set up \<subseteq> set ascii_uppercase"
      "length al = nat (dict_get complexity ''min_alphabetic'' 0)" "set al \<subseteq> set ascii_letters"
      "length nu = nat (dict_get complexity ''min_numeric'' 0)" "set nu \<subseteq> set digits"
      "length pu = nat (dict_get complexity ''min_punctuation'' 0)" "set pu \<subseteq> set punctuation"
      "length sy = nat (dict_get complexity ''min_symbol'' 0)" "set sy \<subseteq> set non_ascii_characters"
    by (elim exE conjE)
  have merged: "complexity = merge_alphabetic policy"
    using c assms(2) by (simp add: password_complexity_def)
  have same: "dict_get complexity rule 0 = dict_get policy rule 0" if "rule \<noteq> ''min_alphabetic''" for rule
    using merge_alphabetic_other [OF that, of policy] by (simp add: merged dict_get_def)
  have lo: "length lo \<le> class_count ascii_lowercase password"
    using class_count_block [of password "[]" lo "up @ al @ nu @ pu @ sy @ cs"] m blocks(2) by simp
  have up: "length up \<le> class_count ascii_uppercase password"
    using class_count_block [of password lo up "al @ nu @ pu @ sy @ cs"] m blocks(4) by simp
  have nu: "length nu \<le> class_count digits password"
    using class_count_block [of password "lo @ up @ al" nu "pu @ sy @ cs"] m blocks(8) by simp
  have pu: "length pu \<le> class_count punctuation password"
    using class_count_block [of password "lo @ up @ al @ nu" pu "sy @ cs"] m blocks(10) by simp
  have sy: "length sy \<le> class_count non_ascii_characters password"
    using class_count_block [of password "lo @ up @ al @ nu @ pu" sy cs] m blocks(12) by simp
  have sub: "set (lo @ up @ al) \<subseteq> set ascii_letters"
    using blocks(2,4,6) letters_pools by auto
  have "mset password = mset ([] @ (lo @ up @ al) @ (nu @ pu @ sy @ cs))" using m by simp
  from class_count_block [OF this sub]
  have al: "length lo + length up + length al \<le> class_count ascii_letters password" by simp
  have a1: "dict_get policy ''min_alphabetic'' 0 \<le> int (class_count ascii_letters password)"
    using merge_alphabetic_covers [of policy] al blocks(1,3,5) unfolding merged by linarith
  have a2: "dict_get (merge_alphabetic policy) ''min_alphabetic'' 0
              \<le> int (class_count ascii_letters password)"
    using al blocks(5) unfolding merged by linarith
  have l: "dict_get policy ''min_lower'' 0 \<le> int (class_count ascii_lowercase password)"
    using lo blocks(1) same [of "''min_lower''"] by simp
  have u: "dict_get policy ''min_upper'' 0 \<le> int (class_count ascii_uppercase password)"
    using up blocks(3) same [of "''min_upper''"] by simp
  have n: "dict_get policy ''min_numeric'' 0 \<le> int (class_count digits password)"
    using nu blocks(7) same [of "''min_numeric''"] by simp
  have p: "dict_get policy ''min_punctuation'' 0 \<le> int (class_count punctuation password)"
    using pu blocks(9) same [of "''min_punctuation''"] by simp
  have s: "dict_get policy ''min_symbol'' 0 \<le> int (class_count non_ascii_characters password)"
    using sy blocks(11) same [of "''min_symbol''"] by simp
  from l u a1 a2 n p s show ?thesis by (simp only: simp_thms)
qed

theorem generate_password_meets_policy_witness:
  "map_sum id fst (generate_password example_validators 10 [97, 98] example_sources)
     = Inr [98, 71, 100, 56, 97, 174, 82, 121, 46, 108]
   \<and> 2 \<le> int (class_count ascii_lowercase [98, 71, 100, 56, 97, 174, 82, 121, 46, 108])
   \<and> 1 \<le> int (class_count ascii_uppercase [98, 71, 100, 56, 97, 174, 82, 121, 46, 108])
   \<and> 5 \<le> int (class_count ascii_letters [98, 71, 100, 56, 97, 174, 82, 121, 46, 108])
   \<and> 1 \<le> int (class_count digits [98, 71, 100, 56, 97, 174, 82, 121, 46, 108])
   \<and> 1 \<le> int (class_count punctuation [98, 71, 100, 56, 97, 174, 82, 121, 46, 108])
   \<and> 1 \<le> int (class_count non_ascii_characters [98, 71, 100, 56, 97, 174, 82, 121, 46, 108])"
proof -
  from example_run obtain w' where
    run: "generate_password example_validators 10 [97, 98] example_sources
            = Inr ([98, 71, 100, 56, 97, 174, 82, 121, 46, 108], w')"
    by (rule Inr_fstE)
  from generate_password_meets_policy [OF run example_policy] example_run
  show ?thesis by (simp add: dict_get_def)
qed

section \<open>The length of the generated password\<close>

text \<open>
  C2 as stated fails: with a minimum length of 8, ten required digits and a requested
  length of 8 the password has 10 characters, not \<open>max(8, 8)\<close>. With both random
  sources constantly 0 the ten digits are drawn in order and the shuffle swaps each
  position with position 0.
\<close>

theorem generate_password_length_counterexample:
  "map_sum id fst (generate_password numeric_validators 8 [97] zero_sources)
     = Inr [49, 50, 51, 52, 53, 54, 55, 56, 57, 48]
   \<and> password_complexity numeric_validators = Inr [''min_length'' \<mapsto> 8, ''min_numeric'' \<mapsto> 10]
   \<and> int (length [49, 50, 51, 52, 53, 54, 55, 56, 57, 48 :: nat]) \<noteq> max 8 8"
  using numeric_run numeric_policy by simp

text \<open>
  C2, amended: the length of the returned password is the greatest of the requested length,
  the policy's minimum length and the number of characters the per-class minimums require
  (a negative minimum requiring none).
\<close>

theorem generate_password_length:
  assumes "generate_password password_validators len chars w = Inr (password, w')"
    and "password_complexity password_validators = Inr complexity"
    and "complexity ''min_length'' = Some min_length"
  shows "int (length password) = max (max len min_length) (int (policy_chars complexity))"
  using generate_password_shape [OF assms(1)] assms(2,3) by auto

theorem generate_password_length_witness:
  "map_sum id fst (generate_password numeric_validators 8 [97] zero_sources)
     = Inr [49, 50, 51, 52, 53, 54, 55, 56, 57, 48]
   \<and> int (length [49, 50, 51, 52, 53, 54, 55, 56, 57, 48 :: nat])
       = max (max 8 8) (int (policy_chars [''min_length'' \<mapsto> 8, ''min_numeric'' \<mapsto> 10]))"
proof -
  note ev = numeric_run
  then obtain w' where run: "generate_password numeric_validators 8 [97] zero_sources
     = Inr ([49, 50, 51, 52, 53, 54, 55, 56, 57, 48], w')"
    by (rule Inr_fstE)
  note pol = numeric_policy
  have ml: "[''min_length'' \<mapsto> 8, ''min_numeric'' \<mapsto> (10::int)] ''min_length'' = Some 8" by simp
  from ev generate_password_length [OF run pol ml] show ?thesis by (rule conjI)
qed

text \<open>
  C3 as stated fails when the policy is the configured minimums: with a minimum length of
  8, five alphabetic, two lowercase and two uppercase characters required and a requested
  length of 8, the configured per-class minimums add up to 9, more than \<open>max(8, 8)\<close>,
  but \<open>password_complexity\<close> lowers the alphabetic minimum to 1 and the password has 8
  characters, not 9.
\<close>

theorem generate_password_policy_driven_counterexample:
  "collect_complexity merging_validators Map.empty
     = Inr [''min_length'' \<mapsto> 8, ''min_alphabetic'' \<mapsto> 5, ''min_lower'' \<mapsto> 2,
            ''min_upper'' \<mapsto> 2]
   \<and> max 8 8 < int (policy_chars [''min_length'' \<mapsto> 8, ''min_alphabetic'' \<mapsto> 5,
                                   ''min_lower'' \<mapsto> 2, ''min_upper'' \<mapsto> 2])
   \<and> map_sum id fst (generate_password merging_validators 8 [97] zero_sources)
     = Inr [98, 65, 66, 97, 97, 97, 97, 97]
   \<and> length [98, 65, 66, 97, 97, 97, 97, 97 :: nat]
     \<noteq> policy_chars [''min_length'' \<mapsto> 8, ''min_alphabetic'' \<mapsto> 5, ''min_lower'' \<mapsto> 2,
                     ''min_upper'' \<mapsto> 2]"
  using merging_policy merging_run by (simp add: merging_total)

text \<open>
  C3, amended: when the per-class minimums of the dictionary \<open>password_complexity\<close>
  returns, which is the policy \<open>generate_password\<close> reads and has the alphabetic
  minimum reduced by the lowercase and uppercase ones, add up to more than
  \<open>max(length, min_length)\<close>, the returned password has exactly that many characters,
  and so not \<open>max(length, min_length)\<close>.
\<close>

theorem generate_password_policy_driven:
  assumes "generate_password password_validators len chars w = Inr (password, w')"
    and "password_complexity password_validators = Inr complexity"
    and "complexity ''min_length'' = Some min_length"
    and "max len min_length < int (policy_chars complexity)"
  shows "length password = policy_chars complexity
       \<and> int (length password) \<noteq> max len min_length"
  using generate_password_shape [OF assms(1)] assms(2,3,4) by auto

theorem generate_password_policy_driven_witness:
  "map_sum id fst (generate_password numeric_validators 8 [97] zero_sources)
     = Inr [49, 50, 51, 52, 53, 54, 55, 56, 57, 48]
   \<and> max 8 8 < int (policy_chars [''min_length'' \<mapsto> 8, ''min_numeric'' \<mapsto> 10])
   \<and> length [49, 50, 51, 52, 53, 54, 55, 56, 57, 48 :: nat]
       = policy_chars [''min_length'' \<mapsto> 8, ''min_numeric'' \<mapsto> 10]
   \<and> policy_chars [''min_length'' \<mapsto> 8, ''min_numeric'' \<mapsto> 10] = 10"
proof -
  note ev = numeric_run
  then obtain w' where run: "generate_password numeric_validators 8 [97] zero_sources
     = Inr ([49, 50, 51, 52, 53, 54, 55, 56, 57, 48], w')"
    by (rule Inr_fstE)
  note pol = numeric_policy
  have ml: "[''min_length'' \<mapsto> 8, ''min_numeric'' \<mapsto> (10::int)] ''min_length'' = Some 8" by simp
  have pc: "policy_chars [''min_length'' \<mapsto> 8, ''min_numeric'' \<mapsto> 10] = 10"
    by (simp add: policy_chars_eq dict_get_def)
  then have big: "max 8 8 < int (policy_chars [''min_length'' \<mapsto> 8, ''min_numeric'' \<mapsto> 10])"
    by simp
  from generate_password_policy_driven [OF run pol ml big] ev pc big show ?thesis by simp
qed

section \<open>Requested length below 8\<close>

text \<open>
  C5: for every requested length strictly below 8, \<open>generate_password\<close> raises
  \<open>ValueError\<close> and returns no password, whatever the policy, the pool and the random
  sources; this holds for the generator of \<open>user_authn\<close> and for the one of
  \<open>user_api/accounts\<close>.
\<close>

theorem generate_password_short:
  "len < 8 \<Longrightarrow>
     generate_password password_validators len chars w = Inl ValueError
     \<and> generate_password_accounts PASSWORD_MIN_LENGTH enforce complexity len chars w = Inl ValueError"
  by (simp add: generate_password_def generate_password_accounts_def)

theorem generate_password_short_witness:
  "(7::int) < 8
   \<and> generate_password [] 7 [97, 98] \<lparr>system_random = (\<lambda>i. i), twister = (\<lambda>i. 0)\<rparr> = Inl ValueError
   \<and> generate_password_accounts 2 False Map.empty 7 [97, 98]
        \<lparr>system_random = (\<lambda>i. i), twister = (\<lambda>i. 0)\<rparr> = Inl ValueError"
  using generate_password_short [of 7 "[]" "[97, 98]" "\<lparr>system_random = (\<lambda>i. i), twister = (\<lambda>i. 0)\<rparr>"
      2 False Map.empty]
  by simp

section \<open>A policy without a minimum length\<close>

text \<open>
  C4, at the input that breaks it: with no validator configured at all and a requested
  length of 12, \<open>complexity.get('min_length')\<close> is \<open>None\<close> and \<open>max(12, None)\<close>
  raises \<open>TypeError\<close>; no password of length 12 is returned.
\<close>

theorem generate_password_no_min_length:
  "generate_password [] 12 chars w = Inl TypeError"
  by (simp add: generate_password_def password_complexity_def merge_alphabetic_def)

section \<open>Sampling stays within the pools\<close>



section \<open>Username suggestions are unused names\<close>

text \<open>
  C7: for every input name and every existence oracle, no username in the list that
  \<open>generate_username_suggestions\<close> returns is marked existing or retired by the
  oracle: each one was appended only after \<open>username_exists_or_retired\<close> answered no
  for it. This holds whatever the maximum length, the random integers and the Unicode
  tables behind \<open>lower\<close> and \<open>\w\<close> are.
\<close>

theorem generate_username_suggestions_fresh:
  "u \<in> set (fst (generate_username_suggestions USERNAME_MAX_LENGTH lower is_word
                    username_exists_or_retired name w))
     \<Longrightarrow> \<not> username_exists_or_retired u"
proof -
  assume u: "u \<in> set (fst (generate_username_suggestions USERNAME_MAX_LENGTH lower is_word
                    username_exists_or_retired name w))"
  define first_name where
    "first_name = remove_special_characters_from_name is_word (lower (hd (split 32 name)))"
  define last_name where
    "last_name = remove_special_characters_from_name is_word (lower (last (split 32 name)))"
  define s1 where "s1 = slice_to USERNAME_MAX_LENGTH (first_name @ last_name)"
  define s2 where "s2 = slice_to USERNAME_MAX_LENGTH ([hd first_name] @ [45] @ last_name)"
  define first where "first =
     (if first_name \<noteq> last_name \<and> first_name \<noteq> []
      then (if \<not> username_exists_or_retired s2
            then (if \<not> username_exists_or_retired s1 then [s1] else []) @ [s2]
            else (if \<not> username_exists_or_retired s1 then [s1] else []))
      else [])"
  define short where "short = filter (\<lambda>c. c \<noteq> 45) (filter (\<lambda>c. c \<noteq> 95)
     (case USERNAME_MAX_LENGTH of None \<Rightarrow> first_name
      | Some m \<Rightarrow> slice_to (Some (m - 6)) first_name))"
  have fresh: "\<forall>u \<in> set first. \<not> username_exists_or_retired u"
    by (auto simp: first_def)
  have result: "fst (generate_username_suggestions USERNAME_MAX_LENGTH lower is_word
                    username_exists_or_retired name w)
      = (if split 32 name = [] then []
         else if length first_name \<ge> 2
              then fst (ranges_loop int_ranges username_exists_or_retired short first (twister w))
              else first)"
    unfolding generate_username_suggestions_def first_def short_def s1_def s2_def
      first_name_def last_name_def
    by (simp add: Let_def split: prod.splits)
  show ?thesis
    using u fresh ranges_loop_fresh [OF fresh, of int_ranges short "twister w"]
    unfolding result by (auto split: if_splits)
qed

theorem generate_username_suggestions_fresh_witness:
  "fst (generate_username_suggestions (Some 30) ascii_lower ascii_word taken john_smith
          counting_sources)
     = [[106, 45, 115, 109, 105, 116, 104], [106, 111, 104, 110, 95, 48],
        [106, 111, 104, 110, 95, 49, 49]]
   \<and> \<not> taken [106, 111, 104, 110, 95, 48]
   \<and> taken [106, 111, 104, 110, 115, 109, 105, 116, 104]"
proof -
  have "[106, 111, 104, 110, 95, 48] \<in> set (fst (generate_username_suggestions (Some 30)
          ascii_lower ascii_word taken john_smith counting_sources))"
    unfolding john_smith_run by simp
  from generate_username_suggestions_fresh [OF this] john_smith_run
  show ?thesis by (simp add: taken_def)
qed

section \<open>The breach lookup\<close>

text \<open>
  C6: for every password whose digest the lookup is asked for, when the lookup returns the
  timeout sentinel \<open>check_pwned_password\<close> returns the dictionary whose only entry is
  \<open>vulnerability = unknown\<close> (so there is no \<open>frequency\<close>) and raises nothing; when
  it returns a dictionary of counts, \<open>vulnerability\<close> is \<open>yes\<close> for a positive count of
  the hash suffix and \<open>no\<close> for a count of zero (a missing suffix counts as zero).
\<close>

theorem check_pwned_password_status:
  assumes "sha1_hexdigest password = Inr hashed"
  shows "(api_range hashed = Timeout \<longrightarrow>
            check_pwned_password sha1_hexdigest api_range log10_libm log10_frexp password
              = Inr [''vulnerability'' \<mapsto> PyStr ''unknown''])
       \<and> (api_range hashed = Entries d \<and> 0 < dict_get d (drop 5 hashed) 0 \<longrightarrow>
            (\<exists>properties. check_pwned_password sha1_hexdigest api_range log10_libm log10_frexp
                  password = Inr properties
              \<and> properties ''vulnerability'' = Some (PyStr ''yes'')))
       \<and> (api_range hashed = Entries d \<and> dict_get d (drop 5 hashed) 0 = 0 \<longrightarrow>
            check_pwned_password sha1_hexdigest api_range log10_libm log10_frexp password
              = Inr [''vulnerability'' \<mapsto> PyStr ''no''])"
proof (intro conjI impI)
  assume "api_range hashed = Timeout"
  then show "check_pwned_password sha1_hexdigest api_range log10_libm log10_frexp password
      = Inr [''vulnerability'' \<mapsto> PyStr ''unknown'']"
    using assms by (simp add: check_pwned_password_def add_frequency_none)
next
  assume a: "api_range hashed = Entries d \<and> 0 < dict_get d (drop 5 hashed) 0"
  then have "0 < dict_get d (drop 5 hashed) 0" by simp
  from add_frequency_positive [OF this, of log10_libm log10_frexp
      "[''vulnerability'' \<mapsto> PyStr ''yes'']"]
  obtain x :: real where "add_frequency log10_libm log10_frexp
      [''vulnerability'' \<mapsto> PyStr ''yes''] (dict_get d (drop 5 hashed) 0)
        = Inr [''vulnerability'' \<mapsto> PyStr ''yes'', ''frequency'' \<mapsto> PyInt \<lceil>x\<rceil>]"
    by (elim exE conjE)
  then show "\<exists>properties. check_pwned_password sha1_hexdigest api_range log10_libm log10_frexp
      password = Inr properties \<and> properties ''vulnerability'' = Some (PyStr ''yes'')"
    using assms a by (simp add: check_pwned_password_def Let_def)
next
  assume "api_range hashed = Entries d \<and> dict_get d (drop 5 hashed) 0 = 0"
  then show "check_pwned_password sha1_hexdigest api_range log10_libm log10_frexp password
      = Inr [''vulnerability'' \<mapsto> PyStr ''no'']"
    using assms by (simp add: check_pwned_password_def Let_def add_frequency_none)
qed

theorem check_pwned_password_status_witness:
  "check_pwned_password example_digest (\<lambda>h. Timeout) log10_table (\<lambda>n. 0)
      [112, 97, 115, 115, 119, 111, 114, 100] = Inr [''vulnerability'' \<mapsto> PyStr ''unknown'']
   \<and> map_sum id (\<lambda>properties. properties ''vulnerability'')
        (check_pwned_password example_digest (\<lambda>h. Entries (single_entry 3730471)) log10_table
           (\<lambda>n. 0) [112, 97, 115, 115, 119, 111, 114, 100]) = Inr (Some (PyStr ''yes''))
   \<and> check_pwned_password example_digest (\<lambda>h. Entries Map.empty) log10_table (\<lambda>n. 0)
      [112, 97, 115, 115, 119, 111, 114, 100] = Inr [''vulnerability'' \<mapsto> PyStr ''no'']"
proof -
  let ?h = "''5BAA61E4C9B93F3F0682250B6CF8331B7EE68FD8''"
  note t = check_pwned_password_status [where sha1_hexdigest = example_digest
      and password = "[112, 97, 115, 115, 119, 111, 114, 100]" and hashed = ?h
      and api_range = "\<lambda>h. Timeout" and log10_libm = log10_table and log10_frexp = "\<lambda>n. 0"]
  note y = check_pwned_password_status [where sha1_hexdigest = example_digest
      and password = "[112, 97, 115, 115, 119, 111, 114, 100]" and hashed = ?h
      and api_range = "\<lambda>h. Entries (single_entry 3730471)" and log10_libm = log10_table
      and log10_frexp = "\<lambda>n. 0" and d = "single_entry 3730471"]
  note n = check_pwned_password_status [where sha1_hexdigest = example_digest
      and password = "[112, 97, 115, 115, 119, 111, 114, 100]" and hashed = ?h
      and api_range = "\<lambda>h. Entries Map.empty" and log10_libm = log10_table
      and log10_frexp = "\<lambda>n. 0" and d = Map.empty]
  have zero: "dict_get (Map.empty :: string \<rightharpoonup> int) (drop 5 ?h) 0 = 0"
    by (simp add: dict_get_def)
  have pos: "0 < dict_get (single_entry 3730471) (drop 5 ?h) 0"
    by (simp add: single_entry_def dict_get_def)
  from t password_digest have 1: "check_pwned_password example_digest (\<lambda>h. Timeout) log10_table
      (\<lambda>n. 0) [112, 97, 115, 115, 119, 111, 114, 100]
        = Inr [''vulnerability'' \<mapsto> PyStr ''unknown'']"
    by blast
  from y password_digest pos have "\<exists>properties. check_pwned_password example_digest
      (\<lambda>h. Entries (single_entry 3730471)) log10_table (\<lambda>n. 0)
      [112, 97, 115, 115, 119, 111, 114, 100]
        = Inr properties \<and> properties ''vulnerability'' = Some (PyStr ''yes'')"
    by blast
  then have 2: "map_sum id (\<lambda>properties. properties ''vulnerability'')
        (check_pwned_password example_digest (\<lambda>h. Entries (single_entry 3730471)) log10_table
           (\<lambda>n. 0) [112, 97, 115, 115, 119, 111, 114, 100]) = Inr (Some (PyStr ''yes''))"
    by auto
  from n password_digest zero have 3: "check_pwned_password example_digest
      (\<lambda>h. Entries Map.empty) log10_table (\<lambda>n. 0) [112, 97, 115, 115, 119, 111, 114, 100]
        = Inr [''vulnerability'' \<mapsto> PyStr ''no'']"
    by blast
  from 1 2 3 show ?thesis by (intro conjI)
qed




section \<open>Where the shuffle draws from\<close>

text \<open>
  C8, at an input that breaks it: the character choices and the fill use
  \<open>random.SystemRandom().choice\<close>, but the shuffle is \<open>random.shuffle\<close>, which
  draws from the module-level Mersenne Twister. With a minimum length of 8, ten required
  digits and a requested length of 8, two runs with the same secure source and different
  twister states return different passwords, and the run advances the shared twister by
  nine draws: its next value is 1 before the call and 2 after it.
\<close>

theorem generate_password_shuffle_source:
  "map_sum id fst (generate_password numeric_validators 8 [97] zero_sources)
     = Inr [49, 50, 51, 52, 53, 54, 55, 56, 57, 48]
   \<and> map_sum id fst (generate_password numeric_validators 8 [97] marked_sources)
     = Inr [48, 50, 51, 52, 53, 54, 55, 56, 57, 49]
   \<and> system_random zero_sources = system_random marked_sources
   \<and> twister marked_sources 0 = 1
   \<and> map_sum id (\<lambda>r. twister (snd r) 0)
        (generate_password numeric_validators 8 [97] marked_sources) = Inr 2"
  using numeric_run marked_run marked_state
  by (simp add: zero_sources_def marked_sources_def)


end
